theory Spec2Isabelle
  imports Complex_Main
begin

section \<open>Values shared by the models\<close>

text \<open>
  A JavaScript Number is modelled as an exact rational: the models follow which
  arithmetic the code performs, not the rounding of IEEE doubles. An ObjectId is a
  natural number and an instant (a Date) is a count of milliseconds. A String field that
  may be null or undefined is a \<open>string option\<close>.
\<close>

type_synonym number = rat
type_synonym object_id = nat
type_synonym instant = nat

text \<open>JavaScript truthiness of a string that may be null: non-null and non-empty.\<close>

definition truthy :: "string option \<Rightarrow> bool" where
  "truthy s = (case s of None \<Rightarrow> False | Some x \<Rightarrow> x \<noteq> [])"

text \<open>\<open>Array.prototype.findIndex\<close>: the first index whose element satisfies the test
  (\<open>None\<close> for the source's \<open>-1\<close>).\<close>

fun findIndex :: "('a \<Rightarrow> bool) \<Rightarrow> 'a list \<Rightarrow> nat option" where
  "findIndex P [] = None"
| "findIndex P (x # xs) =
     (if P x then Some 0 else map_option Suc (findIndex P xs))"

section \<open>Product (second document of src/models/Cart.js)\<close>

record variant =
  v_color :: "string option"
  v_size :: "string option"
  v_stock :: number

text \<open>Of the product schema the models keep the fields the cart and order code read
  or write; \<open>p_images\<close> holds the url of each image.\<close>

record product =
  p_id :: object_id
  p_name :: string
  p_price :: number
  p_images :: "string list"
  p_stock :: number
  p_variants :: "variant list"
  p_isActive :: bool

text \<open>\<open>productSchema.methods.updateStock\<close>: the variant is the first one with the
  given colour and size; nothing changes when there is none.\<close>

definition updateStock :: "number \<Rightarrow> string option \<Rightarrow> string option \<Rightarrow> product \<Rightarrow> product" where
  "updateStock quantity color size' p =
     (if truthy color \<and> truthy size' then
        (case findIndex (\<lambda>v. v_color v = color \<and> v_size v = size') (p_variants p) of
           Some i \<Rightarrow>
             (let v = p_variants p ! i;
                  s = v_stock v - quantity
              in p\<lparr>p_variants := (p_variants p)[i := v\<lparr>v_stock := (if s < 0 then 0 else s)\<rparr>]\<rparr>)
         | None \<Rightarrow> p)
      else
        (let s = p_stock p - quantity
         in p\<lparr>p_stock := (if s < 0 then 0 else s)\<rparr>))"

section \<open>Cart (src/models/Cart.js)\<close>

datatype coupon_type = Percentage | Fixed

record coupon =
  cp_code :: string
  cp_discount :: number
  cp_type :: coupon_type

record cart_item =
  ci_id :: object_id
  ci_product :: object_id
  ci_name :: string
  ci_price :: number
  ci_quantity :: number
  ci_color :: "string option"
  ci_size :: "string option"
  ci_image :: string
  ci_sku :: "string option"
  ci_inStock :: bool
  ci_maxQuantity :: number

record cart =
  c_user :: object_id
  c_items :: "cart_item list"
  c_subtotal :: number
  c_tax :: number
  c_shipping :: number
  c_discount :: number
  c_total :: number
  c_coupon :: "coupon option"
  c_lastUpdated :: instant

text \<open>\<open>cartSchema.methods.calculateTotals\<close>. The field \<open>discount\<close> is assigned only
  inside the branch taken for a coupon whose discount is positive.\<close>

definition calculateTotals :: "cart \<Rightarrow> cart" where
  "calculateTotals c =
     (let c1 = c\<lparr>c_subtotal :=
                 foldl (\<lambda>total item. total + ci_price item * ci_quantity item) 0 (c_items c)\<rparr>;
          c2 = c1\<lparr>c_tax := c_subtotal c1 * (85 / 1000)\<rparr>;
          c3 = c2\<lparr>c_shipping := (if c_subtotal c2 \<ge> 50 then 0 else 599 / 100)\<rparr>;
          c4 = (case c_coupon c3 of
                  None \<Rightarrow> c3
                | Some cp \<Rightarrow>
                    if cp_discount cp > 0 then
                      (let discountAmount =
                             (if cp_type cp = Percentage
                              then c_subtotal c3 * (cp_discount cp / 100)
                              else cp_discount cp)
                       in c3\<lparr>c_discount := min discountAmount (c_subtotal c3)\<rparr>)
                    else c3)
      in c4\<lparr>c_total := c_subtotal c4 + c_tax c4 + c_shipping c4 - c_discount c4\<rparr>)"

text \<open>\<open>cartSchema.methods.addItem\<close>. \<open>new_id\<close> is the \<open>_id\<close> the document mapper gives
  the pushed subdocument and \<open>now\<close> the reading of \<open>new Date()\<close>. The product schema
  declares no \<open>sku\<close>, so the snapshot's \<open>sku\<close> is undefined.\<close>

definition addItem :: "object_id \<Rightarrow> instant \<Rightarrow> product \<Rightarrow> number \<Rightarrow> string option \<Rightarrow> string option \<Rightarrow> cart \<Rightarrow> cart" where
  "addItem new_id now product' quantity color size' c =
     (let items' =
        (case findIndex (\<lambda>item. ci_product item = p_id product' \<and> ci_color item = color \<and> ci_size item = size')
                (c_items c) of
           Some i \<Rightarrow>
             (let it = c_items c ! i;
                  it1 = it\<lparr>ci_quantity := ci_quantity it + quantity\<rparr>;
                  it2 = (if ci_quantity it1 > ci_maxQuantity it1
                         then it1\<lparr>ci_quantity := ci_maxQuantity it1\<rparr> else it1)
              in (c_items c)[i := it2])
         | None \<Rightarrow>
             c_items c @
               [\<lparr>ci_id = new_id, ci_product = p_id product', ci_name = p_name product',
                 ci_price = p_price product', ci_quantity = quantity, ci_color = color,
                 ci_size = size',
                 ci_image = (case p_images product' of [] \<Rightarrow> [] | url # _ \<Rightarrow> url),
                 ci_sku = None, ci_inStock = (p_stock product' > 0),
                 ci_maxQuantity = min (p_stock product') 10\<rparr>])
      in (calculateTotals (c\<lparr>c_items := items'\<rparr>))\<lparr>c_lastUpdated := now\<rparr>)"

definition removeItem :: "instant \<Rightarrow> object_id \<Rightarrow> cart \<Rightarrow> cart" where
  "removeItem now itemId c =
     (calculateTotals (c\<lparr>c_items := filter (\<lambda>item. ci_id item \<noteq> itemId) (c_items c)\<rparr>))
       \<lparr>c_lastUpdated := now\<rparr>"

definition updateItemQuantity :: "instant \<Rightarrow> object_id \<Rightarrow> number \<Rightarrow> cart \<Rightarrow> cart" where
  "updateItemQuantity now itemId quantity c =
     (case findIndex (\<lambda>item. ci_id item = itemId) (c_items c) of
        Some i \<Rightarrow>
          (let it = c_items c ! i;
               it' = it\<lparr>ci_quantity := min (max 1 quantity) (ci_maxQuantity it)\<rparr>
           in (calculateTotals (c\<lparr>c_items := (c_items c)[i := it']\<rparr>))\<lparr>c_lastUpdated := now\<rparr>)
      | None \<Rightarrow> c)"

definition clearCart :: "instant \<Rightarrow> cart \<Rightarrow> cart" where
  "clearCart now c =
     c\<lparr>c_items := [], c_subtotal := 0, c_tax := 0, c_shipping := 0, c_discount := 0,
       c_total := 0, c_coupon := None, c_lastUpdated := now\<rparr>"

definition applyCoupon :: "instant \<Rightarrow> string \<Rightarrow> number \<Rightarrow> coupon_type \<Rightarrow> cart \<Rightarrow> cart" where
  "applyCoupon now couponCode disc ty c =
     (calculateTotals (c\<lparr>c_coupon := Some \<lparr>cp_code = couponCode, cp_discount = disc, cp_type = ty\<rparr>\<rparr>))
       \<lparr>c_lastUpdated := now\<rparr>"

definition removeCoupon :: "instant \<Rightarrow> cart \<Rightarrow> cart" where
  "removeCoupon now c = (calculateTotals (c\<lparr>c_coupon := None\<rparr>))\<lparr>c_lastUpdated := now\<rparr>"


section \<open>Results of the route handlers\<close>

text \<open>The handlers answer an HTTP status; the model keeps the four failures they
  distinguish: 404, 400, 403 and the 500 of the catch block.\<close>

datatype error = NotFound | Invalid | Unauthorized | ServerError

section \<open>Cart routes (second document of src/utils/sendEmail.js)\<close>



section \<open>Order (second document of src/unnamed/part_000)\<close>

datatype status = Pending | Processing | Shipped | Delivered | Cancelled | Refunded

datatype refund_status = RefundPending | RefundApproved | RefundRejected | RefundCompleted

record history_entry =
  h_status :: status
  h_timestamp :: instant
  h_note :: "string option"

record refund_info =
  r_amount :: number
  r_reason :: string
  r_status :: refund_status

record order_item =
  oi_product :: object_id
  oi_name :: string
  oi_price :: number
  oi_quantity :: number
  oi_color :: "string option"
  oi_size :: "string option"
  oi_image :: string

text \<open>Of the order schema the model keeps the fields the modelled code reads or writes
  (addresses and payment data are carried through unread). \<open>o_statusModified\<close> is the
  document mapper's change mark of the path \<open>status\<close>, which \<open>isModified('status')\<close>
  reads: assigning a value different from the current one sets it, a save clears it.\<close>

record order =
  o_id :: object_id
  o_orderNumber :: "string option"
  o_user :: "object_id option"
  o_items :: "order_item list"
  o_itemsPrice :: number
  o_taxPrice :: number
  o_shippingPrice :: number
  o_totalPrice :: number
  o_status :: status
  o_statusHistory :: "history_entry list"
  o_shippedAt :: "instant option"
  o_deliveredAt :: "instant option"
  o_estimatedDelivery :: "instant option"
  o_actualDeliveryDate :: "instant option"
  o_refundInfo :: "refund_info option"
  o_createdAt :: instant
  o_statusModified :: bool

text \<open>What the handlers read off the clock: the instant \<open>new Date()\<close>, its local
  calendar fields (\<open>getFullYear\<close>, \<open>getMonth\<close> counted from 0, \<open>getDate\<close>), and the
  instants of the local midnights that bound today.\<close>

record clock =
  k_now :: instant
  k_fullYear :: nat
  k_month :: nat
  k_date :: nat
  k_today :: instant
  k_tomorrow :: instant

text \<open>\<open>Number.prototype.toString\<close> on a non-negative integer, \<open>padStart\<close> with a
  one-character filler and \<open>slice(-n)\<close>.\<close>

definition digit :: "nat \<Rightarrow> char" where
  "digit d = ''0123456789'' ! d"

fun toString :: "nat \<Rightarrow> string" where
  "toString n = (if n < 10 then [digit n] else toString (n div 10) @ [digit (n mod 10)])"

declare toString.simps [simp del]

definition padStart :: "nat \<Rightarrow> char \<Rightarrow> string \<Rightarrow> string" where
  "padStart targetLength c s = replicate (targetLength - length s) c @ s"

definition slice_last :: "nat \<Rightarrow> string \<Rightarrow> string" where
  "slice_last n s = drop (length s - n) s"

text \<open>The assignment \<open>this.status = s\<close> with the change mark it leaves.\<close>

definition set_status :: "status \<Rightarrow> order \<Rightarrow> order" where
  "set_status s ord =
     ord\<lparr>o_status := s, o_statusModified := (o_statusModified ord \<or> s \<noteq> o_status ord)\<rparr>"

text \<open>\<open>orderSchema.pre('save')\<close>; \<open>existing\<close> is the stored collection that
  \<open>countDocuments\<close> counts. \<open>!this.orderNumber\<close> holds for undefined, null and the
  empty string.\<close>

definition order_pre_save :: "clock \<Rightarrow> order list \<Rightarrow> order \<Rightarrow> order" where
  "order_pre_save k existing ord =
     (let o1 =
        (if \<not> truthy (o_orderNumber ord) then
           (let year = slice_last 2 (toString (k_fullYear k));
                month = padStart 2 (CHR ''0'') (toString (k_month k + 1));
                day = padStart 2 (CHR ''0'') (toString (k_date k));
                count = length (filter (\<lambda>x. k_today k \<le> o_createdAt x \<and> o_createdAt x < k_tomorrow k)
                                  existing)
            in ord\<lparr>o_orderNumber :=
                     Some (year @ month @ day @ padStart 3 (CHR ''0'') (toString (count + 1)))\<rparr>)
         else ord)
      in if o_statusModified o1
         then o1\<lparr>o_statusHistory := o_statusHistory o1 @
                   [\<lparr>h_status = o_status o1, h_timestamp = k_now k, h_note = None\<rparr>]\<rparr>
         else o1)"

text \<open>\<open>document.save()\<close>: the hook runs, the change mark is cleared and the document
  replaces the stored one with its \<open>_id\<close>, or is added when there is none.\<close>

definition order_save :: "clock \<Rightarrow> order list \<Rightarrow> order \<Rightarrow> order list" where
  "order_save k existing ord =
     (let saved = (order_pre_save k existing ord)\<lparr>o_statusModified := False\<rparr>
      in if list_ex (\<lambda>x. o_id x = o_id saved) existing
         then map (\<lambda>x. if o_id x = o_id saved then saved else x) existing
         else existing @ [saved])"

definition updateStatus :: "instant \<Rightarrow> status \<Rightarrow> string \<Rightarrow> order \<Rightarrow> order" where
  "updateStatus now newStatus note ord =
     (let o1 = set_status newStatus ord;
          o2 = o1\<lparr>o_statusHistory := o_statusHistory o1 @
                    [\<lparr>h_status = newStatus, h_timestamp = now, h_note = Some note\<rparr>]\<rparr>
      in if newStatus = Shipped then o2\<lparr>o_shippedAt := Some now\<rparr>
         else if newStatus = Delivered
         then o2\<lparr>o_deliveredAt := Some now, o_actualDeliveryDate := Some now\<rparr>
         else o2)"


definition canBeRefunded :: "order \<Rightarrow> bool" where
  "canBeRefunded ord = (o_status ord \<in> set [Delivered, Shipped])"

section \<open>Order routes (src/routes/order.js)\<close>

text \<open>The store: products by \<open>_id\<close> and the collection of orders. Sending mail is an
  external collaborator and is left out; it runs after the writes modelled here.\<close>

record db =
  db_products :: "object_id \<rightharpoonup> product"
  db_orders :: "order list"

record requester =
  u_id :: object_id
  u_isAdmin :: bool

definition findOrder :: "object_id \<Rightarrow> order list \<Rightarrow> order option" where
  "findOrder i existing = find (\<lambda>x. o_id x = i) existing"




text \<open>The six status names the status route accepts.\<close>

definition parse_status :: "string \<Rightarrow> status option" where
  "parse_status s =
     (if s = ''pending'' then Some Pending
      else if s = ''processing'' then Some Processing
      else if s = ''shipped'' then Some Shipped
      else if s = ''delivered'' then Some Delivered
      else if s = ''cancelled'' then Some Cancelled
      else if s = ''refunded'' then Some Refunded
      else None)"

text \<open>\<open>PUT /api/orders/:id/status\<close>; an undefined \<open>note\<close> takes \<open>updateStatus\<close>'s
  default, the empty string.\<close>

definition put_order_status ::
  "clock \<Rightarrow> requester \<Rightarrow> object_id \<Rightarrow> string \<Rightarrow> string option \<Rightarrow> db \<Rightarrow> error + db" where
  "put_order_status k user oid status' note d =
     (case parse_status status' of
        None \<Rightarrow> Inl Invalid
      | Some s \<Rightarrow>
          (case findOrder oid (db_orders d) of
             None \<Rightarrow> Inl NotFound
           | Some ord \<Rightarrow>
               if \<not> u_isAdmin user then Inl Unauthorized
               else
                 (let o1 = updateStatus (k_now k) s (case note of None \<Rightarrow> [] | Some n \<Rightarrow> n) ord;
                      o2 = (if s = Shipped
                            then o1\<lparr>o_shippedAt := Some (k_now k),
                                    o_estimatedDelivery := Some (k_now k + 3 * 24 * 60 * 60 * 1000)\<rparr>
                            else o1);
                      o3 = (if s = Delivered
                            then o2\<lparr>o_deliveredAt := Some (k_now k),
                                    o_actualDeliveryDate := Some (k_now k)\<rparr>
                            else o2)
                  in Inr (d\<lparr>db_orders := order_save k (db_orders d) o3\<rparr>))))"




text \<open>\<open>POST /api/orders/:id/refund\<close>. \<open>reason\<close> is the body's reason after the
  validator's trim (empty when absent); \<open>amount || order.totalPrice\<close> takes the total
  for an absent amount and for 0.\<close>

definition post_order_refund ::
  "clock \<Rightarrow> requester \<Rightarrow> object_id \<Rightarrow> string \<Rightarrow> number option \<Rightarrow> db \<Rightarrow> error + db" where
  "post_order_refund k user oid reason amount d =
     (if reason = [] then Inl Invalid
      else
        (case findOrder oid (db_orders d) of
           None \<Rightarrow> Inl NotFound
         | Some ord \<Rightarrow>
             (case o_user ord of
                None \<Rightarrow> Inl ServerError
              | Some owner \<Rightarrow>
                  if owner \<noteq> u_id user then Inl Unauthorized
                  else if \<not> canBeRefunded ord then Inl Invalid
                  else if (case o_refundInfo ord of
                             None \<Rightarrow> False
                           | Some r \<Rightarrow> r_status r \<noteq> RefundPending) then Inl Invalid
                  else
                    (let o1 = ord\<lparr>o_refundInfo :=
                                Some \<lparr>r_amount = (case amount of
                                                    None \<Rightarrow> o_totalPrice ord
                                                  | Some a \<Rightarrow> if a = 0 then o_totalPrice ord else a),
                                      r_reason = reason, r_status = RefundPending\<rparr>\<rparr>
                     in Inr (d\<lparr>db_orders := order_save k (db_orders d) o1\<rparr>)))))"

section \<open>Vocabulary of the statements\<close>








section \<open>Concrete carts, products and orders\<close>

definition demo_item :: "object_id \<Rightarrow> number \<Rightarrow> number \<Rightarrow> cart_item" where
  "demo_item i p q =
     \<lparr>ci_id = i, ci_product = i, ci_name = ''shoe'', ci_price = p, ci_quantity = q,
      ci_color = Some ''red'', ci_size = Some ''9'', ci_image = [], ci_sku = None,
      ci_inStock = True, ci_maxQuantity = 10\<rparr>"

definition demo_cart :: "cart_item list \<Rightarrow> coupon option \<Rightarrow> cart" where
  "demo_cart its cp =
     \<lparr>c_user = 1, c_items = its, c_subtotal = 0, c_tax = 0, c_shipping = 0,
      c_discount = 0, c_total = 0, c_coupon = cp, c_lastUpdated = 0\<rparr>"



definition demo_product :: "object_id \<Rightarrow> number \<Rightarrow> product" where
  "demo_product i stock =
     \<lparr>p_id = i, p_name = ''shoe'', p_price = 30, p_images = [''u''], p_stock = stock,
      p_variants = [\<lparr>v_color = Some ''red'', v_size = Some ''9'', v_stock = stock\<rparr>],
      p_isActive = True\<rparr>"

definition cart_lines :: "cart \<Rightarrow> (object_id \<times> number \<times> number) list" where
  "cart_lines c = map (\<lambda>item. (ci_product item, ci_quantity item, ci_maxQuantity item)) (c_items c)"

definition june15 :: clock where
  "june15 = \<lparr>k_now = 1000, k_fullYear = 2024, k_month = 5, k_date = 15, k_today = 0, k_tomorrow = 86400000\<rparr>"


definition demo_order :: "object_id \<Rightarrow> status \<Rightarrow> order" where
  "demo_order i s =
     \<lparr>o_id = i, o_orderNumber = Some ''240615001'', o_user = Some 3,
      o_items = [\<lparr>oi_product = 1, oi_name = ''shoe'', oi_price = 30, oi_quantity = 2,
                  oi_color = Some ''red'', oi_size = Some ''9'', oi_image = ''u''\<rparr>],
      o_itemsPrice = 60, o_taxPrice = 51 / 10, o_shippingPrice = 0, o_totalPrice = 651 / 10,
      o_status = s, o_statusHistory = [], o_shippedAt = None, o_deliveredAt = None,
      o_estimatedDelivery = None, o_actualDeliveryDate = None, o_refundInfo = None,
      o_createdAt = 500, o_statusModified = False\<rparr>"

definition demo_db :: "order list \<Rightarrow> db" where
  "demo_db existing = \<lparr>db_products = [1 \<mapsto> demo_product 1 5], db_orders = existing\<rparr>"

definition customer :: requester where
  "customer = \<lparr>u_id = 3, u_isAdmin = False\<rparr>"

definition admin :: requester where
  "admin = \<lparr>u_id = 9, u_isAdmin = True\<rparr>"

section \<open>Auxiliary facts\<close>


lemma c_items_calculateTotals: "c_items (calculateTotals c) = c_items c"
  by (simp add: calculateTotals_def Let_def split: option.split)

lemma findIndex_None_iff: "findIndex P xs = None \<longleftrightarrow> (\<forall>x\<in>set xs. \<not> P x)"
  by (induction xs) auto

lemma findIndex_Some_iff:
  "findIndex P xs = Some i \<longleftrightarrow> i < length xs \<and> P (xs ! i) \<and> (\<forall>j<i. \<not> P (xs ! j))"
proof (induction xs arbitrary: i)
  case Nil
  then show ?case by simp
next
  case (Cons x xs)
  show ?case
  proof (cases "P x")
    case True
    then show ?thesis by (cases i) auto
  next
    case False
    show ?thesis
    proof (cases i)
      case 0
      with False show ?thesis by auto
    next
      case (Suc k)
      have "(\<forall>j<Suc k. \<not> P ((x # xs) ! j)) \<longleftrightarrow> (\<forall>j<k. \<not> P (xs ! j))"
        using False by (auto simp: less_Suc_eq_0_disj)
      with False Suc Cons.IH [of k] show ?thesis by auto
    qed
  qed
qed

section \<open>Cart totals\<close>



text \<open>Without a coupon \<open>calculateTotals\<close> leaves the discount field as it finds it.\<close>

lemma calculateTotals_without_coupon:
  "c_coupon c = None \<Longrightarrow> c_discount (calculateTotals c) = c_discount c"
  by (simp add: calculateTotals_def Let_def)

text \<open>
  C2. The specification has the computed fields after every cart mutation be those the
  totals computation derives from the items and the coupon alone, and the discount be 0
  after \<open>removeCoupon\<close>. The code keeps the previous discount: on a cart with one
  item of price 100, applying SAVE10 and removing it again leaves no coupon, discount 10
  and total 98.5.
\<close>

theorem removeCoupon_leaves_discount:
  "(let c = removeCoupon 2 (applyCoupon 1 ''SAVE10'' 10 Percentage (demo_cart [demo_item 1 100 1] None))
    in c_coupon c = None \<and> c_subtotal c = 100 \<and> c_discount c = 10 \<and> c_total c = 985 / 10)"
  by (simp add: removeCoupon_def applyCoupon_def calculateTotals_def demo_cart_def demo_item_def Let_def)

section \<open>Adding to the cart\<close>

text \<open>
  C9. When the cart already holds an item with the same product, colour and size (the
  first such item, at index \<open>i\<close>), \<open>addItem\<close> adds the requested quantity to that item's
  quantity, capped at the item's \<open>maxQuantity\<close>, and appends nothing; when no item
  matches, it appends a new line item whose fields are copied from the product and whose
  \<open>maxQuantity\<close> is the smaller of the product's stock and 10.
\<close>

theorem addItem_merges_or_appends:
  "let same = (\<lambda>item. ci_product item = p_id product' \<and> ci_color item = color \<and> ci_size item = size');
       items' = c_items (addItem new_id now product' quantity color size' c)
   in (i < length (c_items c) \<and> same (c_items c ! i) \<and> (\<forall>j<i. \<not> same (c_items c ! j)) \<longrightarrow>
         items' = (c_items c)
           [i := (c_items c ! i)
              \<lparr>ci_quantity := min (ci_quantity (c_items c ! i) + quantity) (ci_maxQuantity (c_items c ! i))\<rparr>]) \<and>
      ((\<forall>item\<in>set (c_items c). \<not> same item) \<longrightarrow>
         items' = c_items c @
           [\<lparr>ci_id = new_id, ci_product = p_id product', ci_name = p_name product',
             ci_price = p_price product', ci_quantity = quantity, ci_color = color, ci_size = size',
             ci_image = (case p_images product' of [] \<Rightarrow> [] | url # _ \<Rightarrow> url),
             ci_sku = None, ci_inStock = (0 < p_stock product'),
             ci_maxQuantity = min (p_stock product') 10\<rparr>])"
proof -
  define same :: "cart_item \<Rightarrow> bool"
    where "same = (\<lambda>item. ci_product item = p_id product' \<and> ci_color item = color \<and> ci_size item = size')"
  have merge: "c_items (addItem new_id now product' quantity color size' c) =
      (c_items c)[i := (c_items c ! i)
         \<lparr>ci_quantity := min (ci_quantity (c_items c ! i) + quantity) (ci_maxQuantity (c_items c ! i))\<rparr>]"
    if "i < length (c_items c) \<and> same (c_items c ! i) \<and> (\<forall>j<i. \<not> same (c_items c ! j))"
  proof -
    from that have "findIndex same (c_items c) = Some i"
      by (simp add: findIndex_Some_iff)
    then show ?thesis
      unfolding same_def
      by (simp add: addItem_def Let_def c_items_calculateTotals min_def)
  qed
  have append: "c_items (addItem new_id now product' quantity color size' c) = c_items c @
           [\<lparr>ci_id = new_id, ci_product = p_id product', ci_name = p_name product',
             ci_price = p_price product', ci_quantity = quantity, ci_color = color, ci_size = size',
             ci_image = (case p_images product' of [] \<Rightarrow> [] | url # _ \<Rightarrow> url),
             ci_sku = None, ci_inStock = (0 < p_stock product'),
             ci_maxQuantity = min (p_stock product') 10\<rparr>]"
    if "\<forall>item\<in>set (c_items c). \<not> same item"
  proof -
    from that have "findIndex same (c_items c) = None"
      by (simp add: findIndex_None_iff)
    then show ?thesis
      unfolding same_def
      by (simp add: addItem_def Let_def c_items_calculateTotals)
  qed
  from merge append show ?thesis
    unfolding Let_def same_def by blast
qed

text \<open>Adding 4 to a line of 8 with cap 10 gives 10; another product gets a line of its
  own, with the cap min (7, 10).\<close>

theorem addItem_merges_or_appends_witness:
  "cart_lines (addItem 9 5 (demo_product 1 7) 4 (Some ''red'') (Some ''9'')
       (demo_cart [demo_item 2 15 1, demo_item 1 20 8] None)) = [(2, 1, 10), (1, 10, 10)] \<and>
   cart_lines (addItem 9 5 (demo_product 3 7) 4 (Some ''red'') (Some ''9'')
       (demo_cart [demo_item 2 15 1, demo_item 1 20 8] None)) = [(2, 1, 10), (1, 8, 10), (3, 4, 7)]"
  using addItem_merges_or_appends [of "demo_product 1 7" "Some ''red''" "Some ''9''" 9 5 4
          "demo_cart [demo_item 2 15 1, demo_item 1 20 8] None" 1]
        addItem_merges_or_appends [of "demo_product 3 7" "Some ''red''" "Some ''9''" 9 5 4
          "demo_cart [demo_item 2 15 1, demo_item 1 20 8] None" 0]
  by (simp add: cart_lines_def demo_cart_def demo_item_def demo_product_def Let_def)



section \<open>Order numbers\<close>
















section \<open>Order creation and stock\<close>

text \<open>\<open>updateStock\<close> is the floored decrement of the product's own stock when no
  variant is selected; no route calls it.\<close>

lemma updateStock_own_stock:
  "\<not> (truthy color \<and> truthy size') \<Longrightarrow>
   p_stock (updateStock quantity color size' p) = max 0 (p_stock p - quantity)"
  by (auto simp: updateStock_def Let_def max_def)


section \<open>Status updates\<close>

lemma o_id_order_pre_save: "o_id (order_pre_save k existing ord) = o_id ord"
  by (simp add: order_pre_save_def Let_def)

lemma find_replace:
  "list_ex (\<lambda>x. f x = i) xs \<Longrightarrow> f s = i \<Longrightarrow>
   find (\<lambda>x. f x = i) (map (\<lambda>x. if f x = i then s else x) xs) = Some s"
  by (induction xs) auto

lemma find_snoc_new:
  "\<not> list_ex P xs \<Longrightarrow> P s \<Longrightarrow> find P (xs @ [s]) = Some s"
  by (induction xs) auto

lemma findOrder_order_save:
  "findOrder (o_id ord) (order_save k existing ord) =
     Some ((order_pre_save k existing ord)\<lparr>o_statusModified := False\<rparr>)"
proof (cases "list_ex (\<lambda>x. o_id x = o_id ord) existing")
  case True
  then show ?thesis
    by (simp add: findOrder_def order_save_def Let_def o_id_order_pre_save find_replace)
next
  case False
  then show ?thesis
    by (simp add: findOrder_def order_save_def Let_def o_id_order_pre_save find_snoc_new)
qed

lemma findOrder_o_id: "findOrder oid existing = Some ord \<Longrightarrow> o_id ord = oid"
  by (auto simp: findOrder_def find_Some_iff)

lemma order_pre_save_fields:
  "o_status (order_pre_save k existing ord) = o_status ord"
  "o_user (order_pre_save k existing ord) = o_user ord"
  "o_refundInfo (order_pre_save k existing ord) = o_refundInfo ord"
  "o_totalPrice (order_pre_save k existing ord) = o_totalPrice ord"
  "o_items (order_pre_save k existing ord) = o_items ord"
  by (simp_all add: order_pre_save_def Let_def)

lemma updateStatus_fields:
  "o_id (updateStatus now s note ord) = o_id ord"
  "o_status (updateStatus now s note ord) = s"
  "o_items (updateStatus now s note ord) = o_items ord"
  "o_statusHistory (updateStatus now s note ord) =
     o_statusHistory ord @ [\<lparr>h_status = s, h_timestamp = now, h_note = Some note\<rparr>]"
  by (simp_all add: updateStatus_def set_status_def Let_def)

text \<open>
  C7. The specification has every transition append one history entry. The status route calls
  \<open>updateStatus\<close>, which appends an entry, and then saves, where the hook appends
  another one for a status that changed: moving a pending order to processing leaves
  two entries.
\<close>

theorem put_order_status_appends_twice:
  "(case put_order_status june15 admin 7 ''processing'' (Some ''packed'') (demo_db [demo_order 7 Pending]) of
      Inl e \<Rightarrow> False
    | Inr d' \<Rightarrow>
        map o_statusHistory (db_orders d') =
          [[\<lparr>h_status = Processing, h_timestamp = 1000, h_note = Some ''packed''\<rparr>,
            \<lparr>h_status = Processing, h_timestamp = 1000, h_note = None\<rparr>]])"
  by (simp add: put_order_status_def parse_status_def findOrder_def demo_db_def demo_order_def admin_def
        updateStatus_def set_status_def order_save_def order_pre_save_def truthy_def june15_def Let_def)

text \<open>
  C8. The specification has no status update move an order out of cancelled, refunded or
  delivered. An admin's update of a cancelled order to pending succeeds and the order
  is pending again.
\<close>

theorem cancelled_order_reopened:
  "(case put_order_status june15 admin 7 ''pending'' None (demo_db [demo_order 7 Cancelled]) of
      Inl e \<Rightarrow> False
    | Inr d' \<Rightarrow> map o_status (db_orders d') = [Pending])"
  by (simp add: put_order_status_def parse_status_def findOrder_def demo_db_def demo_order_def admin_def
        updateStatus_def set_status_def order_save_def order_pre_save_def truthy_def june15_def Let_def)

text \<open>
  C8, as the code has it. The status route checks no transition: for an order that
  exists, an admin's update to any of the six status names succeeds from every current
  status and leaves the order in the requested status; a name outside the six is
  refused as invalid and a caller who is not an admin as unauthorized.
\<close>

theorem put_order_status_any_transition:
  assumes "findOrder oid (db_orders d) = Some ord"
  shows "(u_isAdmin user \<and> parse_status status' = Some t \<longrightarrow>
            (\<exists>d'. put_order_status k user oid status' note d = Inr d' \<and>
                  map_option o_status (findOrder oid (db_orders d')) = Some t)) \<and>
         (parse_status status' = None \<longrightarrow> put_order_status k user oid status' note d = Inl Invalid) \<and>
         (\<not> u_isAdmin user \<and> parse_status status' = Some t \<longrightarrow>
            put_order_status k user oid status' note d = Inl Unauthorized)"
proof -
  from assms have oid: "o_id ord = oid" by (rule findOrder_o_id)
  have "\<exists>d'. put_order_status k user oid status' note d = Inr d' \<and>
             map_option o_status (findOrder oid (db_orders d')) = Some t"
    if "u_isAdmin user" "parse_status status' = Some t"
  proof -
    let ?o1 = "updateStatus (k_now k) t (case note of None \<Rightarrow> [] | Some n \<Rightarrow> n) ord"
    let ?o2 = "if t = Shipped
               then ?o1\<lparr>o_shippedAt := Some (k_now k),
                        o_estimatedDelivery := Some (k_now k + 3 * 24 * 60 * 60 * 1000)\<rparr>
               else ?o1"
    let ?o3 = "if t = Delivered
               then ?o2\<lparr>o_deliveredAt := Some (k_now k), o_actualDeliveryDate := Some (k_now k)\<rparr>
               else ?o2"
    have run: "put_order_status k user oid status' note d = Inr (d\<lparr>db_orders := order_save k (db_orders d) ?o3\<rparr>)"
      using assms that by (simp add: put_order_status_def Let_def)
    have id3: "o_id ?o3 = oid" and st3: "o_status ?o3 = t"
      using oid by (simp_all add: updateStatus_fields)
    have "findOrder oid (order_save k (db_orders d) ?o3) =
            Some ((order_pre_save k (db_orders d) ?o3)\<lparr>o_statusModified := False\<rparr>)"
      using findOrder_order_save [of ?o3 k "db_orders d"] id3 by simp
    then have "map_option o_status (findOrder oid (order_save k (db_orders d) ?o3)) = Some t"
      using st3 by (simp add: order_pre_save_fields)
    with run show ?thesis by simp
  qed
  moreover have "put_order_status k user oid status' note d = Inl Invalid" if "parse_status status' = None"
    using that by (simp add: put_order_status_def)
  moreover have "put_order_status k user oid status' note d = Inl Unauthorized"
    if "\<not> u_isAdmin user" "parse_status status' = Some t"
    using assms that by (simp add: put_order_status_def)
  ultimately show ?thesis by blast
qed

text \<open>A refunded order is moved to shipped by an admin; a customer and an unknown
  status name are refused.\<close>

theorem put_order_status_any_transition_witness:
  "findOrder 7 (db_orders (demo_db [demo_order 7 Refunded])) = Some (demo_order 7 Refunded) \<and>
   (case put_order_status june15 admin 7 ''shipped'' None (demo_db [demo_order 7 Refunded]) of
      Inl e \<Rightarrow> False
    | Inr d' \<Rightarrow> map_option o_status (findOrder 7 (db_orders d')) = Some Shipped) \<and>
   put_order_status june15 customer 7 ''shipped'' None (demo_db [demo_order 7 Refunded]) = Inl Unauthorized \<and>
   put_order_status june15 admin 7 ''lost'' None (demo_db [demo_order 7 Refunded]) = Inl Invalid"
proof -
  have f: "findOrder 7 (db_orders (demo_db [demo_order 7 Refunded])) = Some (demo_order 7 Refunded)"
    by (simp add: findOrder_def demo_db_def demo_order_def)
  have a: "u_isAdmin admin \<and> parse_status ''shipped'' = Some Shipped"
    by (simp add: admin_def parse_status_def)
  have c: "\<not> u_isAdmin customer \<and> parse_status ''shipped'' = Some Shipped"
    by (simp add: customer_def parse_status_def)
  have l: "parse_status ''lost'' = None"
    by (simp add: parse_status_def)
  from put_order_status_any_transition [OF f, of admin "''shipped''" Shipped june15 None] a
  have "\<exists>d'. put_order_status june15 admin 7 ''shipped'' None (demo_db [demo_order 7 Refunded]) = Inr d' \<and>
                  map_option o_status (findOrder 7 (db_orders d')) = Some Shipped"
    by blast
  moreover from put_order_status_any_transition [OF f, of customer "''shipped''" Shipped june15 None] c
  have "put_order_status june15 customer 7 ''shipped'' None (demo_db [demo_order 7 Refunded]) = Inl Unauthorized"
    by blast
  moreover from put_order_status_any_transition [OF f, of admin "''lost''" Shipped june15 None] l
  have "put_order_status june15 admin 7 ''lost'' None (demo_db [demo_order 7 Refunded]) = Inl Invalid"
    by blast
  ultimately show ?thesis using f by auto
qed

section \<open>Cancellation\<close>


















section \<open>Refund requests\<close>

text \<open>
  C5. The specification has a second refund request fail while the first one is pending. The
  route refuses only a refund record whose status is not pending: on a shipped order
  the first request succeeds and a second one succeeds too, replacing the first.
\<close>

theorem second_refund_request_accepted:
  "(case post_order_refund june15 customer 7 ''too small'' None (demo_db [demo_order 7 Shipped]) of
      Inl e \<Rightarrow> False
    | Inr d1 \<Rightarrow>
        map o_refundInfo (db_orders d1) =
          [Some \<lparr>r_amount = 651 / 10, r_reason = ''too small'', r_status = RefundPending\<rparr>] \<and>
        (case post_order_refund june15 customer 7 ''changed my mind'' (Some 5) d1 of
           Inl e \<Rightarrow> False
         | Inr d2 \<Rightarrow>
             map o_refundInfo (db_orders d2) =
               [Some \<lparr>r_amount = 5, r_reason = ''changed my mind'', r_status = RefundPending\<rparr>]))"
  by (simp add: post_order_refund_def findOrder_def demo_db_def demo_order_def customer_def
        canBeRefunded_def order_save_def order_pre_save_def truthy_def june15_def Let_def)

text \<open>
  C5, as the code has it. For an order that exists and belongs to the caller, and a
  reason that is not empty, a refund request succeeds exactly when the order is
  delivered or shipped and has no refund record with a status other than pending, and
  fails as invalid otherwise. On success the order's refund record has status pending,
  the given reason and the given amount, the order total standing in for an absent
  amount or 0; and a further request on the result succeeds again.
\<close>

theorem post_order_refund_gate:
  assumes "findOrder oid (db_orders d) = Some ord" and "o_user ord = Some (u_id user)" and "reason \<noteq> []"
  shows "((\<exists>d'. post_order_refund k user oid reason amount d = Inr d') \<longleftrightarrow>
            o_status ord \<in> {Delivered, Shipped} \<and>
            (o_refundInfo ord = None \<or> map_option r_status (o_refundInfo ord) = Some RefundPending)) \<and>
         ((\<nexists>d'. post_order_refund k user oid reason amount d = Inr d') \<longrightarrow>
            post_order_refund k user oid reason amount d = Inl Invalid) \<and>
         (\<forall>d'. post_order_refund k user oid reason amount d = Inr d' \<longrightarrow>
            map_option o_refundInfo (findOrder oid (db_orders d')) =
              Some (Some \<lparr>r_amount = (case amount of
                                        None \<Rightarrow> o_totalPrice ord
                                      | Some a \<Rightarrow> if a = 0 then o_totalPrice ord else a),
                          r_reason = reason, r_status = RefundPending\<rparr>) \<and>
            (reason' \<noteq> [] \<longrightarrow> (\<exists>d''. post_order_refund k' user oid reason' amount' d' = Inr d'')))"
proof -
  from assms(1) have oid: "o_id ord = oid" by (rule findOrder_o_id)
  let ?ok = "o_status ord \<in> {Delivered, Shipped} \<and>
            (o_refundInfo ord = None \<or> map_option r_status (o_refundInfo ord) = Some RefundPending)"
  let ?info = "\<lparr>r_amount = (case amount of
                                        None \<Rightarrow> o_totalPrice ord
                                      | Some a \<Rightarrow> if a = 0 then o_totalPrice ord else a),
                          r_reason = reason, r_status = RefundPending\<rparr>"
  let ?o1 = "ord\<lparr>o_refundInfo := Some ?info\<rparr>"
  have pass: "post_order_refund k user oid reason amount d = Inr (d\<lparr>db_orders := order_save k (db_orders d) ?o1\<rparr>)"
    if ?ok
    using assms that by (auto simp: post_order_refund_def canBeRefunded_def Let_def split: option.splits)
  have fail: "post_order_refund k user oid reason amount d = Inl Invalid" if "\<not> ?ok"
    using assms that by (auto simp: post_order_refund_def canBeRefunded_def Let_def split: option.splits)
  have found: "findOrder oid (order_save k (db_orders d) ?o1) =
      Some ((order_pre_save k (db_orders d) ?o1)\<lparr>o_statusModified := False\<rparr>)"
    using findOrder_order_save [of ?o1 k "db_orders d"] oid by simp
  have iff: "(\<exists>d'. post_order_refund k user oid reason amount d = Inr d') \<longleftrightarrow> ?ok"
    using pass fail by (cases ?ok) auto
  have inv: "(\<nexists>d'. post_order_refund k user oid reason amount d = Inr d') \<longrightarrow>
            post_order_refund k user oid reason amount d = Inl Invalid"
    using pass fail by (cases ?ok) auto
  have after: "map_option o_refundInfo (findOrder oid (db_orders d')) = Some (Some ?info) \<and>
            (reason' \<noteq> [] \<longrightarrow> (\<exists>d''. post_order_refund k' user oid reason' amount' d' = Inr d''))"
    if run: "post_order_refund k user oid reason amount d = Inr d'" for d'
  proof -
    from run iff have ok: ?ok by blast
    with run pass have d': "d' = d\<lparr>db_orders := order_save k (db_orders d) ?o1\<rparr>" by simp
    have info: "map_option o_refundInfo (findOrder oid (db_orders d')) = Some (Some ?info)"
      by (simp add: d' found order_pre_save_fields)
    have "\<exists>d''. post_order_refund k' user oid reason' amount' d' = Inr d''" if "reason' \<noteq> []"
      using that ok assms(2)
      by (simp add: post_order_refund_def d' found order_pre_save_fields canBeRefunded_def Let_def)
    with info show ?thesis by blast
  qed
  from iff inv after show ?thesis by blast
qed

text \<open>A delivered order takes a first and a second request; a pending order is
  refused.\<close>

theorem post_order_refund_gate_witness:
  "findOrder 7 (db_orders (demo_db [demo_order 7 Delivered])) = Some (demo_order 7 Delivered) \<and>
   o_user (demo_order 7 Delivered) = Some (u_id customer) \<and>
   (case post_order_refund june15 customer 7 ''too small'' None (demo_db [demo_order 7 Delivered]) of
      Inl e \<Rightarrow> False
    | Inr d' \<Rightarrow>
        map_option o_refundInfo (findOrder 7 (db_orders d')) =
          Some (Some \<lparr>r_amount = 651 / 10, r_reason = ''too small'', r_status = RefundPending\<rparr>) \<and>
        (case post_order_refund june15 customer 7 ''again'' (Some 5) d' of
           Inl e \<Rightarrow> False
         | Inr d'' \<Rightarrow> True)) \<and>
   post_order_refund june15 customer 7 ''too small'' None (demo_db [demo_order 7 Pending]) = Inl Invalid"
proof -
  have f: "findOrder 7 (db_orders (demo_db [demo_order 7 Delivered])) = Some (demo_order 7 Delivered)"
    by (simp add: findOrder_def demo_db_def demo_order_def)
  have u: "o_user (demo_order 7 Delivered) = Some (u_id customer)"
    by (simp add: demo_order_def customer_def)
  have f': "findOrder 7 (db_orders (demo_db [demo_order 7 Pending])) = Some (demo_order 7 Pending)"
    by (simp add: findOrder_def demo_db_def demo_order_def)
  have u': "o_user (demo_order 7 Pending) = Some (u_id customer)"
    by (simp add: demo_order_def customer_def)
  have r: "''too small'' \<noteq> []" "''again'' \<noteq> []" by simp_all
  have st: "o_status (demo_order 7 Delivered) = Delivered" "o_refundInfo (demo_order 7 Delivered) = None"
    "o_status (demo_order 7 Pending) = Pending" "o_totalPrice (demo_order 7 Delivered) = 651 / 10"
    by (simp_all add: demo_order_def)
  note t = post_order_refund_gate [OF f u r(1), of june15 None "''again''" june15 "Some 5"]
  from t st obtain d' where run: "post_order_refund june15 customer 7 ''too small'' None (demo_db [demo_order 7 Delivered]) = Inr d'"
    by auto
  from t run st r
  have info: "map_option o_refundInfo (findOrder 7 (db_orders d')) =
          Some (Some \<lparr>r_amount = 651 / 10, r_reason = ''too small'', r_status = RefundPending\<rparr>)"
    and "\<exists>d''. post_order_refund june15 customer 7 ''again'' (Some 5) d' = Inr d''"
    by auto
  then obtain d'' where again: "post_order_refund june15 customer 7 ''again'' (Some 5) d' = Inr d''"
    by blast
  from post_order_refund_gate [OF f' u' r(1), of june15 None "''again''" june15 "Some 5"] st
  have inv: "post_order_refund june15 customer 7 ''too small'' None (demo_db [demo_order 7 Pending]) = Inl Invalid"
    by simp
  from f u run info again inv show ?thesis by simp
qed

end
